theory Spec2Isabelle
  imports Main "HOL-Library.List_Lexorder"
begin

section \<open>Python strings\<close>

text \<open>
  The program is \<^verbatim>\<open>super.py\<close>. Its strings are Python \<^verbatim>\<open>str\<close> values: sequences of
  Unicode code points. A string is modelled as the list of its code points, so that
  whitespace (which the program tests through \<^verbatim>\<open>strip\<close> and the regular-expression class
  \<^verbatim>\<open>\s\<close>) and the program's non-ASCII literals are what they are in Python. An ASCII
  literal of the source is written \<open>ascii ''...''\<close>.
\<close>

type_synonym pystr = "nat list"

definition ascii :: "string \<Rightarrow> pystr" where
  "ascii s = map of_char s"

text \<open>
  \<^verbatim>\<open>str.isspace\<close> on one code point; the class \<^verbatim>\<open>\s\<close> of \<^verbatim>\<open>re\<close> on a \<^verbatim>\<open>str\<close>
  pattern is the same set.
\<close>

definition isspace :: "nat \<Rightarrow> bool" where
  "isspace c \<longleftrightarrow>
     (0x09 \<le> c \<and> c \<le> 0x0D) \<or> (0x1C \<le> c \<and> c \<le> 0x20) \<or> c = 0x85 \<or> c = 0xA0 \<or>
     c = 0x1680 \<or> (0x2000 \<le> c \<and> c \<le> 0x200A) \<or> c = 0x2028 \<or> c = 0x2029 \<or>
     c = 0x202F \<or> c = 0x205F \<or> c = 0x3000"

text \<open>\<^verbatim>\<open>s.strip()\<close>: leading and trailing whitespace removed.\<close>

definition strip :: "pystr \<Rightarrow> pystr" where
  "strip s = rev (dropWhile isspace (rev (dropWhile isspace s)))"

text \<open>\<^verbatim>\<open>s.startswith(p)\<close>.\<close>

definition startswith :: "pystr \<Rightarrow> pystr \<Rightarrow> bool" where
  "startswith s p \<longleftrightarrow> take (length p) s = p"

text \<open>\<^verbatim>\<open>s.split('\n')\<close>: the pieces between line feeds; never the empty list.\<close>

fun split_newline :: "pystr \<Rightarrow> pystr list" where
  "split_newline [] = [[]]"
| "split_newline (c # cs) =
     (if c = 0x0A then [] # split_newline cs
      else (case split_newline cs of
              [] \<Rightarrow> [[c]]
            | l # ls \<Rightarrow> (c # l) # ls))"

text \<open>\<^verbatim>\<open>p in s\<close> for two strings: \<open>p\<close> occurs in \<open>s\<close> as a substring.\<close>

fun str_contains :: "pystr \<Rightarrow> pystr \<Rightarrow> bool" where
  "str_contains [] p = (p = [])"
| "str_contains (c # cs) p = (startswith (c # cs) p \<or> str_contains cs p)"

text \<open>Truth value of an optional string: \<^verbatim>\<open>None\<close> and \<^verbatim>\<open>''\<close> are false.\<close>

fun truthy :: "pystr option \<Rightarrow> bool" where
  "truthy None = False"
| "truthy (Some s) = (s \<noteq> [])"

section \<open>The change-directory pattern\<close>

text \<open>
  Line 96: \<^verbatim>\<open>cd_pattern = r'cd\s+(.+?)(?:\s|$)'\<close>, used at line 98 through
  \<^verbatim>\<open>re.search(cd_pattern, line)\<close>. \<^verbatim>\<open>re.search\<close> tries every start position from the
  left and returns the first match; the pattern has no anchor.

  \<open>cd_match_here s\<close> is the attempt at the start of \<open>s\<close>, giving group 1. After the
  letters \<^verbatim>\<open>cd\<close> the greedy \<^verbatim>\<open>\s+\<close> takes the whole run of whitespace; the lazy group
  then takes the characters up to the next whitespace or the end. When the string ends
  inside that run the matcher backtracks: the run gives back characters until the group
  can take one that is not a line feed (the dot does not match a line feed), and the
  group is that single character.
\<close>

fun cd_match_here :: "pystr \<Rightarrow> pystr option" where
  "cd_match_here (c # d # w # rest) =
     (if c = 0x63 \<and> d = 0x64 \<and> isspace w then
        (let g = takeWhile (\<lambda>x. \<not> isspace x) (dropWhile isspace rest)
         in if g \<noteq> [] then Some g
            else (case filter (\<lambda>x. x \<noteq> 0x0A) (rev rest) of
                    [] \<Rightarrow> None
                  | x # _ \<Rightarrow> Some [x]))
      else None)"
| "cd_match_here _ = None"

fun re_search_cd :: "pystr \<Rightarrow> pystr option" where
  "re_search_cd [] = None"
| "re_search_cd (c # cs) =
     (case cd_match_here (c # cs) of
        Some g \<Rightarrow> Some g
      | None \<Rightarrow> re_search_cd cs)"

section \<open>Manifests and project types\<close>

text \<open>
  What \<^verbatim>\<open>json.load\<close> returns: \<^verbatim>\<open>None\<close>, a bool, a number, a string, a list or a dict.
  A dict is the list of its items in insertion order. The program never looks at the
  value of a number, only at the fact that it is one.
\<close>

datatype json =
    JNull
  | JBool bool
  | JNum int
  | JStr pystr
  | JArr "json list"
  | JObj "(pystr \<times> json) list"

text \<open>The exceptions the program can meet.\<close>

datatype py_error = AttributeError | TypeError | OSError | UnicodeEncodeError

text \<open>
  \<^verbatim>\<open>pkg.get(key, {})\<close>: only a dict has the method; on any other value the attribute
  lookup raises. On a dict it gives the value under the key, or the default \<^verbatim>\<open>{}\<close>.
\<close>

definition get_or_empty :: "(pystr \<times> json) list \<Rightarrow> pystr \<Rightarrow> json" where
  "get_or_empty kv k =
     (case map_of kv k of
        None \<Rightarrow> JObj []
      | Some v \<Rightarrow> v)"

fun py_get :: "json \<Rightarrow> pystr \<Rightarrow> py_error + json" where
  "py_get (JObj kv) k = Inr (get_or_empty kv k)"
| "py_get _ k = Inl AttributeError"

text \<open>
  \<^verbatim>\<open>d[k] = v\<close> on the item list of a dict: an existing key keeps its place and takes the
  new value, a new key goes to the end.
\<close>

fun dict_set :: "pystr \<Rightarrow> json \<Rightarrow> (pystr \<times> json) list \<Rightarrow> (pystr \<times> json) list" where
  "dict_set k v [] = [(k, v)]"
| "dict_set k v (p # ps) = (if fst p = k then (k, v) # ps else p # dict_set k v ps)"

text \<open>
  \<^verbatim>\<open>{**a, **b}\<close> (line 27): both operands must be mappings, that is dicts; anything else
  raises \<^verbatim>\<open>TypeError\<close>.
\<close>

fun dict_unpack :: "json \<Rightarrow> json \<Rightarrow> py_error + (pystr \<times> json) list" where
  "dict_unpack (JObj a) (JObj b) = Inr (fold (\<lambda>(k, v). dict_set k v) b (fold (\<lambda>(k, v). dict_set k v) a []))"
| "dict_unpack _ _ = Inl TypeError"

text \<open>\<^verbatim>\<open>key in d\<close> for a dict given by its items.\<close>

definition has_key :: "(pystr \<times> json) list \<Rightarrow> pystr \<Rightarrow> bool" where
  "has_key kv k \<longleftrightarrow> k \<in> set (map fst kv)"

text \<open>
  \<^verbatim>\<open>'build' in scripts\<close> (line 57), where \<^verbatim>\<open>scripts\<close> is whatever the manifest holds under
  that key: key membership for a dict, element membership for a list, substring for a
  string, \<^verbatim>\<open>TypeError\<close> for \<^verbatim>\<open>None\<close>, a bool or a number.
\<close>

fun py_in :: "pystr \<Rightarrow> json \<Rightarrow> py_error + bool" where
  "py_in k (JObj kv) = Inr (has_key kv k)"
| "py_in k (JArr xs) = Inr (JStr k \<in> set xs)"
| "py_in k (JStr s) = Inr (str_contains s k)"
| "py_in k _ = Inl TypeError"

text \<open>The dict that \<^verbatim>\<open>detect_project_type\<close> returns.\<close>

record project_type =
  ptype :: pystr
  category :: pystr
  build_command :: "pystr option"
  description :: pystr

definition vite_project :: project_type where
  "vite_project =
     \<lparr>ptype = ascii ''vite'', category = ascii ''static'',
      build_command = Some (ascii ''npm run build''),
      description = ascii ''Vite '' @ [0x9759, 0x6001, 0x7F51, 0x9875, 0x9879, 0x76EE]\<rparr>"

definition cra_project :: project_type where
  "cra_project =
     \<lparr>ptype = ascii ''cra'', category = ascii ''static'',
      build_command = Some (ascii ''npm run build''),
      description = ascii ''Create React App '' @ [0x9879, 0x76EE]\<rparr>"

definition vue_cli_project :: project_type where
  "vue_cli_project =
     \<lparr>ptype = ascii ''vue-cli'', category = ascii ''static'',
      build_command = Some (ascii ''npm run build''),
      description = ascii ''Vue CLI '' @ [0x9879, 0x76EE]\<rparr>"

definition frontend_project :: project_type where
  "frontend_project =
     \<lparr>ptype = ascii ''frontend'', category = ascii ''static'',
      build_command = Some (ascii ''npm run build''),
      description = [0x524D, 0x7AEF, 0x9879, 0x76EE, 0xFF08, 0x901A, 0x7528, 0xFF09]\<rparr>"

definition unknown_project :: project_type where
  "unknown_project =
     \<lparr>ptype = ascii ''unknown'', category = ascii ''unknown'',
      build_command = None,
      description = [0x672A, 0x77E5, 0x9879, 0x76EE, 0x7C7B, 0x578B]\<rparr>"

text \<open>
  What \<^verbatim>\<open>detect_project_type\<close> reads of a project directory: the manifest
  \<^verbatim>\<open>package.json\<close> and whether the two Vite configuration files exist. For the manifest,
  \<^verbatim>\<open>exists()\<close> raises (it passes on every error of \<^verbatim>\<open>stat\<close> but a few, so a directory
  that may not be searched, or a name that is too long, makes it raise), or it is false,
  or \<^verbatim>\<open>open\<close> raises, or \<^verbatim>\<open>json.load\<close> raises, or \<^verbatim>\<open>json.load\<close> returns a value.
\<close>

datatype manifest = Inaccessible | Absent | Unreadable | Malformed | Parsed json

record project_dir =
  package_json :: manifest
  vite_config_ts :: bool
  vite_config_js :: bool

text \<open>
  Lines 26 to 63, the body of the \<^verbatim>\<open>try\<close> after the manifest is loaded. \<open>Inl\<close> is an
  exception raised inside the \<^verbatim>\<open>try\<close>, \<open>Inr (Some t)\<close> one of the four \<^verbatim>\<open>return\<close>
  statements, \<open>Inr None\<close> the end of the block with no \<^verbatim>\<open>return\<close>.
\<close>

definition classify :: "project_dir \<Rightarrow> json \<Rightarrow> py_error + project_type option" where
  "classify d pkg =
     (case py_get pkg (ascii ''scripts'') of
        Inl e \<Rightarrow> Inl e
      | Inr scripts \<Rightarrow>
     (case py_get pkg (ascii ''dependencies'') of
        Inl e \<Rightarrow> Inl e
      | Inr deps \<Rightarrow>
     (case py_get pkg (ascii ''devDependencies'') of
        Inl e \<Rightarrow> Inl e
      | Inr dev_deps \<Rightarrow>
     (case dict_unpack deps dev_deps of
        Inl e \<Rightarrow> Inl e
      | Inr dependencies \<Rightarrow>
          if vite_config_ts d \<or> vite_config_js d then Inr (Some vite_project)
          else if has_key dependencies (ascii ''react-scripts'') then Inr (Some cra_project)
          else if has_key dependencies (ascii ''@vue/cli-service'') then Inr (Some vue_cli_project)
          else (case py_in (ascii ''build'') scripts of
                  Inl e \<Rightarrow> Inl e
                | Inr found \<Rightarrow> if found then Inr (Some frontend_project) else Inr None)))))"

text \<open>
  \<^verbatim>\<open>detect_project_type\<close> (lines 15 to 73). The test \<^verbatim>\<open>package_json.exists()\<close> of
  line 21 stands before the \<^verbatim>\<open>try\<close>: when it raises, the exception leaves the function.
  \<^verbatim>\<open>except Exception: pass\<close> sends every exception of the \<^verbatim>\<open>try\<close> block to the final
  \<^verbatim>\<open>return\<close>.
\<close>

definition detect_project_type :: "project_dir \<Rightarrow> py_error + project_type" where
  "detect_project_type d =
     (case package_json d of
        Inaccessible \<Rightarrow> Inl OSError
      | Absent \<Rightarrow> Inr unknown_project
      | Unreadable \<Rightarrow> Inr unknown_project
      | Malformed \<Rightarrow> Inr unknown_project
      | Parsed pkg \<Rightarrow>
          (case classify d pkg of
             Inl e \<Rightarrow> Inr unknown_project
           | Inr None \<Rightarrow> Inr unknown_project
           | Inr (Some t) \<Rightarrow> Inr t))"

section \<open>Analysing one deploy script\<close>

text \<open>The dict \<^verbatim>\<open>result\<close> of \<^verbatim>\<open>analyze_deploy_script\<close> (lines 86 to 93).\<close>

record analysis_result =
  script :: pystr
  working_dir :: "pystr option"
  commands :: "pystr list"
  current_command :: "pystr option"
  project_type :: "project_type option"
  recommended_command :: "pystr option"

text \<open>
  What the program sees of the target directory and of its surroundings:
  \<^item> \<open>given\<close>: whether a directory is passed at all (\<^verbatim>\<open>main\<close> always passes one; only
    \<^verbatim>\<open>infer_deploy_commands\<close> asks, at line 134);
  \<^item> \<open>target_exists\<close>: what \<^verbatim>\<open>Path(target_dir).resolve()\<close> and then
    \<^verbatim>\<open>script_dir.exists()\<close> do, \<open>Inr\<close> the answer of \<^verbatim>\<open>exists()\<close>, \<open>Inl\<close> the exception
    that one of the two raises (nothing catches it at lines 138 and 139, 256 and 257,
    297 and 298);
  \<^item> \<open>resolved\<close>: the resolved path as text, \<^verbatim>\<open>str(script_dir)\<close>;
  \<^item> \<open>glob_scripts\<close>: the names of the files that \<^verbatim>\<open>glob('deploy_server_*.sh')\<close> yields, in
    the order it yields them;
  \<^item> \<open>read_script\<close>: the text of each script, \<open>None\<close> when \<^verbatim>\<open>open\<close> or \<^verbatim>\<open>read\<close> raises;
  \<^item> \<open>lookup_dir\<close>: for each working directory, what \<^verbatim>\<open>project_path.exists()\<close> of line
    116 does on \<^verbatim>\<open>script_dir / working_dir\<close>: \<open>Inl\<close> when it raises, \<open>Inr None\<close> when it
    is false, \<open>Inr (Some d)\<close> when the path exists and looks like \<open>d\<close>;
  \<^item> \<open>can_write\<close>: whether a file can be written at a path;
  \<^item> \<open>stdout_ok\<close>: whether \<^verbatim>\<open>print\<close> succeeds on what the run prints (it raises when
    standard output cannot encode the text, which is not ASCII, or is closed).
  All scripts lie in the target directory, so \<^verbatim>\<open>script_dir\<close> is the same for all.
\<close>

record target =
  given :: bool
  target_exists :: "py_error + bool"
  resolved :: pystr
  glob_scripts :: "pystr list"
  read_script :: "pystr \<Rightarrow> pystr option"
  lookup_dir :: "pystr \<Rightarrow> py_error + project_dir option"
  can_write :: "pystr \<Rightarrow> bool"
  stdout_ok :: bool

text \<open>Line 83: the stripped lines that are neither blank nor comments.\<close>

definition script_lines :: "pystr \<Rightarrow> pystr list" where
  "script_lines content =
     map strip
       (filter (\<lambda>line. strip line \<noteq> [] \<and> \<not> startswith (strip line) (ascii ''#''))
          (split_newline content))"

text \<open>Lines 97 to 100: every line with a match overwrites \<^verbatim>\<open>result['working_dir']\<close>.\<close>

fun find_working_dir :: "pystr option \<Rightarrow> pystr list \<Rightarrow> pystr option" where
  "find_working_dir wd [] = wd"
| "find_working_dir wd (line # lines) =
     (case re_search_cd line of
        Some g \<Rightarrow> find_working_dir (Some g) lines
      | None \<Rightarrow> find_working_dir wd lines)"

text \<open>Lines 103 to 107: the loop that appends to \<^verbatim>\<open>result['commands']\<close>.\<close>

fun collect_commands :: "pystr list \<Rightarrow> pystr list \<Rightarrow> pystr list" where
  "collect_commands cmds [] = cmds"
| "collect_commands cmds (line # lines) =
     (if startswith line (ascii ''cd '') then collect_commands cmds lines
      else if line \<noteq> [] then collect_commands (cmds @ [line]) lines
      else collect_commands cmds lines)"

text \<open>Lines 110 and 111.\<close>

definition last_command :: "pystr list \<Rightarrow> pystr option" where
  "last_command cmds = (if cmds \<noteq> [] then Some (last cmds) else None)"

text \<open>
  Lines 83 to 111, from the text of the script on: the result before the project is
  looked at. \<open>name\<close> is \<^verbatim>\<open>os.path.basename(script_path)\<close>.
\<close>

definition parse_script :: "pystr \<Rightarrow> pystr \<Rightarrow> analysis_result" where
  "parse_script name content =
     (let lines = script_lines content;
          cmds = collect_commands [] lines
      in \<lparr>script = name, working_dir = find_working_dir None lines, commands = cmds,
          current_command = last_command cmds,
          project_type = None, recommended_command = None\<rparr>)"

text \<open>
  Lines 113 to 123. Neither \<^verbatim>\<open>project_path.exists()\<close> nor the call of
  \<^verbatim>\<open>detect_project_type\<close> stands in a \<^verbatim>\<open>try\<close>: an exception of either leaves the function.
\<close>

definition attach_project :: "target \<Rightarrow> analysis_result \<Rightarrow> py_error + analysis_result" where
  "attach_project t r =
     (case working_dir r of
        None \<Rightarrow> Inr r
      | Some w \<Rightarrow>
          if w = [] then Inr r
          else (case lookup_dir t w of
                  Inl e \<Rightarrow> Inl e
                | Inr None \<Rightarrow> Inr r
                | Inr (Some d) \<Rightarrow>
                    (case detect_project_type d of
                       Inl e \<Rightarrow> Inl e
                     | Inr pt \<Rightarrow>
                         Inr (r\<lparr>project_type := Some pt,
                                recommended_command :=
                                  (if truthy (build_command pt) then build_command pt
                                   else current_command r)\<rparr>))))"

text \<open>Lines 83 to 125.\<close>

definition analyze_content :: "target \<Rightarrow> pystr \<Rightarrow> pystr \<Rightarrow> py_error + analysis_result" where
  "analyze_content t name content = attach_project t (parse_script name content)"

text \<open>
  \<^verbatim>\<open>analyze_deploy_script\<close> (lines 76 to 125): reading the file may raise, and nothing
  catches it.
\<close>

definition analyze_deploy_script :: "target \<Rightarrow> pystr \<Rightarrow> py_error + analysis_result" where
  "analyze_deploy_script t name =
     (case read_script t name of
        None \<Rightarrow> Inl OSError
      | Some content \<Rightarrow> analyze_content t name content)"

section \<open>The run over all scripts\<close>

text \<open>
  \<^verbatim>\<open>sorted(deploy_scripts)\<close>: the paths share their directory, so they are ordered by
  file name, and Python orders strings by code point, a proper prefix first. That is the
  lexicographic order on lists of code points.
\<close>

definition sorted_scripts :: "target \<Rightarrow> pystr list" where
  "sorted_scripts t = sort (glob_scripts t)"

text \<open>
  The loop of lines 153 to 155, 268 to 270 and 320 to 322: analyse each script and append
  the result; an exception ends the run.
\<close>

fun analyze_loop :: "target \<Rightarrow> analysis_result list \<Rightarrow> pystr list \<Rightarrow> py_error + analysis_result list" where
  "analyze_loop t results [] = Inr results"
| "analyze_loop t results (p # ps) =
     (case analyze_deploy_script t p of
        Inl e \<Rightarrow> Inl e
      | Inr r \<Rightarrow> analyze_loop t (results @ [r]) ps)"

text \<open>The objects of the JSON array: keys \<^verbatim>\<open>dir\<close>, \<^verbatim>\<open>command\<close> and \<^verbatim>\<open>type\<close>.\<close>

record deploy_entry =
  dir :: pystr
  command :: pystr
  etype :: pystr

text \<open>
  The body of the loop of lines 207 to 221, which lines 273 to 285 repeat word for word:
  \<open>None\<close> when the result is passed over, \<open>Some e\<close> when \<open>e\<close> is appended.
  \<^verbatim>\<open>project_type_str\<close> is assigned once, the literal \<^verbatim>\<open>"frontend"\<close>.
\<close>

definition entry_of :: "analysis_result \<Rightarrow> deploy_entry option" where
  "entry_of r =
     (case working_dir r of
        None \<Rightarrow> None
      | Some w \<Rightarrow>
     (case recommended_command r of
        None \<Rightarrow> None
      | Some c \<Rightarrow>
          if w \<noteq> [] \<and> c \<noteq> [] then
            (let project_type_str = ascii ''frontend'';
                 e = \<lparr>dir = w, command = c, etype = project_type_str\<rparr>
             in case project_type r of
                  None \<Rightarrow> Some e
                | Some pt \<Rightarrow> if category pt \<noteq> ascii ''static'' then None else Some e)
          else None))"

fun collect_entries :: "deploy_entry list \<Rightarrow> analysis_result list \<Rightarrow> deploy_entry list" where
  "collect_entries acc [] = acc"
| "collect_entries acc (r # rs) =
     (case entry_of r of
        None \<Rightarrow> collect_entries acc rs
      | Some e \<Rightarrow> collect_entries (acc @ [e]) rs)"

definition deploy_commands_json :: "analysis_result list \<Rightarrow> deploy_entry list" where
  "deploy_commands_json results = collect_entries [] results"

text \<open>The Python values handed to \<^verbatim>\<open>json.dumps\<close>.\<close>

definition entry_json :: "deploy_entry \<Rightarrow> json" where
  "entry_json e =
     JObj [(ascii ''dir'', JStr (dir e)), (ascii ''command'', JStr (command e)),
           (ascii ''type'', JStr (etype e))]"

definition error_json :: "pystr \<Rightarrow> json" where
  "error_json msg = JObj [(ascii ''error'', JStr msg)]"

text \<open>The two messages of lines 258 and 264, the path being \<^verbatim>\<open>str(script_dir)\<close>.\<close>

definition dir_missing_msg :: "pystr \<Rightarrow> pystr" where
  "dir_missing_msg p = [0x76EE, 0x5F55, 0x4E0D, 0x5B58, 0x5728] @ ascii '': '' @ p"

definition no_scripts_msg :: "pystr \<Rightarrow> pystr" where
  "no_scripts_msg p =
     [0x5728] @ ascii '' '' @ p @ ascii '' '' @ [0x76EE, 0x5F55, 0x4E0B, 0x672A, 0x627E, 0x5230] @
     ascii '' deploy_server_*.sh '' @ [0x811A, 0x672C]"

text \<open>\<^verbatim>\<open>print(x)\<close>: returns normally, or raises when standard output refuses the text.\<close>

definition py_print :: "target \<Rightarrow> 'a \<Rightarrow> py_error + 'a" where
  "py_print t x = (if stdout_ok t then Inr x else Inl UnicodeEncodeError)"

text \<open>
  \<^verbatim>\<open>output_json_only\<close> (lines 254 to 287): the value whose JSON text is printed, or
  the exception that leaves the function.
\<close>

definition output_json_only :: "target \<Rightarrow> py_error + json" where
  "output_json_only t =
     (case target_exists t of
        Inl e \<Rightarrow> Inl e
      | Inr found \<Rightarrow>
          if \<not> found then py_print t (error_json (dir_missing_msg (resolved t)))
          else if glob_scripts t = [] then py_print t (error_json (no_scripts_msg (resolved t)))
          else (case analyze_loop t [] (sorted_scripts t) of
                  Inl e \<Rightarrow> Inl e
                | Inr results \<Rightarrow>
                    py_print t (JArr (map entry_json (deploy_commands_json results)))))"

section \<open>The full report\<close>

text \<open>Line 224: \<^verbatim>\<open>script_dir / 'deploy_commands.json'\<close> as text.\<close>

definition json_output_path :: "pystr \<Rightarrow> pystr" where
  "json_output_path p =
     (if p = ascii ''/'' then ascii ''/deploy_commands.json''
      else p @ ascii ''/deploy_commands.json'')"

text \<open>
  \<^verbatim>\<open>infer_deploy_commands\<close> (lines 128 to 233). The result is what the function returns:
  \<open>Inr None\<close> for the three early returns, \<open>Inr (Some (results, deploy_commands_json))\<close>
  for line 233, the list being also what is written to \<^verbatim>\<open>deploy_commands.json\<close> and
  printed; \<open>Inl\<close> for an exception. Every path prints, first of all at lines 135, 140,
  146 and 149. The text of the report itself is not part of the model.
\<close>

definition infer_deploy_commands ::
    "target \<Rightarrow> py_error + (analysis_result list \<times> deploy_entry list) option" where
  "infer_deploy_commands t =
     (if \<not> given t then py_print t None
      else (case target_exists t of
              Inl e \<Rightarrow> Inl e
            | Inr found \<Rightarrow>
                if \<not> found then py_print t None
                else if glob_scripts t = [] then py_print t None
                else if \<not> stdout_ok t then Inl UnicodeEncodeError
                else (case analyze_loop t [] (sorted_scripts t) of
                        Inl e \<Rightarrow> Inl e
                      | Inr results \<Rightarrow>
                          if can_write t (json_output_path (resolved t))
                          then Inr (Some (results, deploy_commands_json results))
                          else Inl OSError)))"

section \<open>The generated shell script\<close>

text \<open>Lines 325 to 338: the head of \<^verbatim>\<open>script_lines\<close>, \<open>p\<close> being \<^verbatim>\<open>str(script_dir)\<close>.\<close>

definition script_head :: "pystr \<Rightarrow> pystr list" where
  \<open>script_head p =
     [ascii ''#!/bin/bash'',
      ascii ''# '' @ [0x81EA, 0x52A8, 0x751F, 0x6210, 0x7684, 0x90E8, 0x7F72, 0x811A, 0x672C],
      ascii ''# '' @ [0x529F, 0x80FD] @ ascii '': '' @
        [0x8FDB, 0x5165, 0x76EE, 0x5F55, 0x3001, 0x6267, 0x884C, 0x6784, 0x5EFA, 0x547D, 0x4EE4,
         0x3001, 0x590D, 0x5236] @
        ascii ''dist'' @ [0x4EA7, 0x7269, 0x5230] @ ascii ''/website'' @ [0x76EE, 0x5F55],
      [],
      ascii ''set -e  # '' @ [0x9047, 0x5230, 0x9519, 0x8BEF, 0x7ACB, 0x5373, 0x9000, 0x51FA],
      [],
      ascii ''# '' @ [0x8F93, 0x51FA, 0x76EE, 0x5F55],
      ascii ''OUTPUT_DIR="$1"'',
      ascii ''# '' @ [0x811A, 0x672C, 0x57FA, 0x7840, 0x76EE, 0x5F55],
      ascii ''BASE_DIR="'' @ p @ ascii ''"'',
      ascii ''cd "$BASE_DIR"'',
      []]\<close>

text \<open>
  Lines 359 to 385: the lines appended for one project. \<open>pt\<close> is
  \<^verbatim>\<open>result['project_type']\<close>, \<open>w\<close> the working directory and \<open>b\<close> the build command.
  Line 375 is an f-string with a nested literal in double quotes, which Python accepts
  from version 3.12 on; its value is the line given here.
\<close>

definition fragment_lines :: "pystr \<Rightarrow> project_type option \<Rightarrow> pystr \<Rightarrow> pystr \<Rightarrow> pystr list" where
  \<open>fragment_lines name pt w b =
     [ascii ''# '' @ [0x9879, 0x76EE] @ ascii '': '' @ name] @
     (case pt of
        None \<Rightarrow> []
      | Some t \<Rightarrow> [ascii ''# '' @ [0x7C7B, 0x578B] @ ascii '': '' @ description t]) @
     [[],
      ascii ''echo "'' @ [0x8FDB, 0x5165, 0x76EE, 0x5F55] @ ascii '': '' @ w @ ascii ''"'',
      ascii ''cd "$BASE_DIR/'' @ w @ ascii ''"'',
      [],
      ascii ''echo "'' @ [0x6267, 0x884C, 0x6784, 0x5EFA, 0x547D, 0x4EE4] @ ascii '': '' @ b @ ascii ''"'',
      b,
      [],
      ascii ''echo "'' @ [0x590D, 0x5236] @ ascii ''dist'' @ [0x4EA7, 0x7269, 0x5230] @
        ascii ''${OUTPUT_DIR}'' @ [0x76EE, 0x5F55] @ ascii ''"'',
      ascii ''if [ -d "$BASE_DIR/'' @ w @ ascii ''/dist" ]; then'',
      ascii ''    mkdir -p $OUTPUT_DIR'',
      ascii ''    cp -r dist/* $OUTPUT_DIR'',
      ascii ''    echo "'' @ [0x590D, 0x5236, 0x5B8C, 0x6210] @ ascii ''"'',
      ascii ''else'',
      ascii ''    echo "'' @ [0x8B66, 0x544A] @ ascii '': dist'' @
        [0x76EE, 0x5F55, 0x4E0D, 0x5B58, 0x5728, 0xFF0C, 0x8DF3, 0x8FC7, 0x590D, 0x5236] @ ascii ''"'',
      ascii ''fi'',
      [],
      ascii ''echo "---"'',
      []]\<close>

text \<open>
  Lines 342 to 356: the two \<^verbatim>\<open>continue\<close> tests and the build command; no line is
  appended for a result that is passed over.
\<close>

definition fragment_of :: "analysis_result \<Rightarrow> pystr list" where
  "fragment_of r =
     (case working_dir r of
        None \<Rightarrow> []
      | Some w \<Rightarrow>
     (case recommended_command r of
        None \<Rightarrow> []
      | Some c \<Rightarrow>
          if w = [] \<or> c = [] then []
          else (case project_type r of
                  None \<Rightarrow> fragment_lines (script r) None w c
                | Some pt \<Rightarrow>
                    if category pt \<noteq> ascii ''static'' then []
                    else fragment_lines (script r) (Some pt) w
                           (if category pt = ascii ''static'' then ascii ''npm install && '' @ c
                            else c))))"

fun append_fragments :: "pystr list \<Rightarrow> analysis_result list \<Rightarrow> pystr list" where
  "append_fragments ls [] = ls"
| "append_fragments ls (r # rs) = append_fragments (ls @ fragment_of r) rs"

text \<open>Lines 325 to 385: the list \<^verbatim>\<open>script_lines\<close> when the loop is over.\<close>

definition generated_lines :: "pystr \<Rightarrow> analysis_result list \<Rightarrow> pystr list" where
  "generated_lines p results = append_fragments (script_head p) results"




section \<open>Reading the outputs\<close>

text \<open>
  The properties below speak of the results whose project category is static, of the
  directories a generated script changes into and of the fields of the printed JSON.
  These are read off the values of the program as follows.
\<close>

definition is_static :: "analysis_result \<Rightarrow> bool" where
  "is_static r =
     (case project_type r of
        None \<Rightarrow> False
      | Some pt \<Rightarrow> category pt = ascii ''static'')"

text \<open>
  The projection of a result to \<^verbatim>\<open>dir\<close>, \<^verbatim>\<open>command\<close> and \<^verbatim>\<open>type\<close>, and the same three
  fields of an entry; the first two are optional in a result.
\<close>

definition result_fields :: "analysis_result \<Rightarrow> pystr option \<times> pystr option \<times> pystr" where
  "result_fields r = (working_dir r, recommended_command r, ascii ''frontend'')"

definition entry_fields :: "deploy_entry \<Rightarrow> pystr option \<times> pystr option \<times> pystr" where
  "entry_fields e = (Some (dir e), Some (command e), etype e)"



text \<open>The value under a key of a JSON object, and the \<^verbatim>\<open>dir\<close> fields of a JSON array.\<close>

fun json_field :: "json \<Rightarrow> pystr \<Rightarrow> json option" where
  "json_field (JObj kv) k = map_of kv k"
| "json_field _ k = None"






section \<open>A sample target directory\<close>

text \<open>
  Three deploy scripts: one for a Vite project, one whose project has a manifest that
  is not JSON, one whose working directory does not exist.
\<close>

definition demo_vite_dir :: project_dir where
  "demo_vite_dir =
     \<lparr>package_json = Parsed (JObj [(ascii ''scripts'', JObj [(ascii ''dev'', JStr (ascii ''vite''))])]),
      vite_config_ts = True, vite_config_js = False\<rparr>"

definition demo_broken_dir :: project_dir where
  "demo_broken_dir = \<lparr>package_json = Malformed, vite_config_ts = False, vite_config_js = False\<rparr>"

definition demo_files :: "(pystr \<times> pystr) list" where
  "demo_files =
     [(ascii ''deploy_server_web.sh'',
         ascii ''#!/bin/bash'' @ [0x0A] @ ascii ''cd web'' @ [0x0A] @ ascii ''npm run dev'' @ [0x0A]),
      (ascii ''deploy_server_api.sh'', ascii ''cd api'' @ [0x0A] @ ascii ''npm start''),
      (ascii ''deploy_server_old.sh'', ascii ''cd gone'' @ [0x0A] @ ascii ''make'')]"

definition demo_target :: target where
  "demo_target =
     \<lparr>given = True, target_exists = Inr True, resolved = ascii ''/srv/site'',
      glob_scripts = map fst demo_files, read_script = map_of demo_files,
      lookup_dir =
        (\<lambda>w. Inr (map_of [(ascii ''web'', demo_vite_dir), (ascii ''api'', demo_broken_dir)] w)),
      can_write = (\<lambda>p. True), stdout_ok = True\<rparr>"

definition demo_api :: analysis_result where
  "demo_api =
     \<lparr>script = ascii ''deploy_server_api.sh'', working_dir = Some (ascii ''api''),
      commands = [ascii ''npm start''], current_command = Some (ascii ''npm start''),
      project_type = Some unknown_project, recommended_command = Some (ascii ''npm start'')\<rparr>"

definition demo_old :: analysis_result where
  "demo_old =
     \<lparr>script = ascii ''deploy_server_old.sh'', working_dir = Some (ascii ''gone''),
      commands = [ascii ''make''], current_command = Some (ascii ''make''),
      project_type = None, recommended_command = None\<rparr>"

definition demo_web :: analysis_result where
  "demo_web =
     \<lparr>script = ascii ''deploy_server_web.sh'', working_dir = Some (ascii ''web''),
      commands = [ascii ''npm run dev''], current_command = Some (ascii ''npm run dev''),
      project_type = Some vite_project, recommended_command = Some (ascii ''npm run build'')\<rparr>"

definition missing_target :: target where
  "missing_target =
     \<lparr>given = True, target_exists = Inr False, resolved = ascii ''/srv/none'',
      glob_scripts = [], read_script = (\<lambda>p. None), lookup_dir = (\<lambda>p. Inr None),
      can_write = (\<lambda>p. True), stdout_ok = True\<rparr>"

text \<open>A directory that exists and holds no deploy script.\<close>

definition empty_target :: target where
  "empty_target =
     \<lparr>given = True, target_exists = Inr True, resolved = ascii ''/srv/empty'',
      glob_scripts = [], read_script = (\<lambda>p. None), lookup_dir = (\<lambda>p. Inr None),
      can_write = (\<lambda>p. True), stdout_ok = True\<rparr>"


text \<open>
  A target whose path has a component of 300 letters, as \<^verbatim>\<open>/tmp/aaa...a\<close>: no such
  directory exists, and \<^verbatim>\<open>exists()\<close> raises \<^verbatim>\<open>OSError\<close> (file name too long), an error
  it does not take for an answer.
\<close>

definition long_name_target :: target where
  "long_name_target =
     \<lparr>given = True, target_exists = Inl OSError,
      resolved = ascii ''/tmp/'' @ replicate 300 0x61,
      glob_scripts = [], read_script = (\<lambda>p. None), lookup_dir = (\<lambda>p. Inr None),
      can_write = (\<lambda>p. True), stdout_ok = True\<rparr>"

text \<open>
  A project directory that exists and may not be searched (mode 0644 for a user who
  is not root): the manifest in it cannot be read, and \<^verbatim>\<open>package_json.exists()\<close> raises
  \<^verbatim>\<open>PermissionError\<close>. A target with one script that changes into it.
\<close>

definition locked_dir :: project_dir where
  "locked_dir = \<lparr>package_json = Inaccessible, vite_config_ts = False, vite_config_js = False\<rparr>"

definition locked_target :: target where
  "locked_target =
     \<lparr>given = True, target_exists = Inr True, resolved = ascii ''/srv/locked'',
      glob_scripts = [ascii ''deploy_server_app.sh''],
      read_script = (\<lambda>p. Some (ascii ''cd app'' @ [0x0A] @ ascii ''npm run dev'')),
      lookup_dir = (\<lambda>w. Inr (if w = ascii ''app'' then Some locked_dir else None)),
      can_write = (\<lambda>p. True), stdout_ok = True\<rparr>"



text \<open>
  A target directory with the one script \<^verbatim>\<open>deploy_server_app.sh\<close> of the given content
  and no other entry: no working directory resolves to a directory that exists.
\<close>

definition lone_script_target :: "pystr \<Rightarrow> target" where
  "lone_script_target content =
     \<lparr>given = True, target_exists = Inr True, resolved = ascii ''/srv/lone'',
      glob_scripts = [ascii ''deploy_server_app.sh''],
      read_script = (\<lambda>p. if p = ascii ''deploy_server_app.sh'' then Some content else None),
      lookup_dir = (\<lambda>w. Inr None),
      can_write = (\<lambda>p. True), stdout_ok = True\<rparr>"

section \<open>Facts about the analysis of one script\<close>

lemmas str_defs = ascii_def strip_def isspace_def startswith_def

lemma parse_script_fields:
  "script (parse_script p c) = p"
  "working_dir (parse_script p c) = find_working_dir None (script_lines c)"
  "commands (parse_script p c) = collect_commands [] (script_lines c)"
  "current_command (parse_script p c) = last_command (collect_commands [] (script_lines c))"
  "project_type (parse_script p c) = None"
  "recommended_command (parse_script p c) = None"
  by (simp_all add: parse_script_def Let_def)

lemma attach_project_fields:
  assumes "attach_project t r0 = Inr r"
  shows "script r = script r0 \<and> working_dir r = working_dir r0 \<and>
         commands r = commands r0 \<and> current_command r = current_command r0"
  using assms
  by (auto simp: attach_project_def split: option.splits if_splits sum.splits)

lemma analyze_content_fields:
  assumes "analyze_content t p c = Inr r"
  shows "script r = p"
    and "working_dir r = find_working_dir None (script_lines c)"
    and "commands r = collect_commands [] (script_lines c)"
    and "current_command r = last_command (collect_commands [] (script_lines c))"
  using attach_project_fields[of t "parse_script p c" r] assms
  by (simp_all add: analyze_content_def parse_script_fields)

lemma attach_project_cases:
  assumes "attach_project t r0 = Inr r"
    and "project_type r0 = None" and "recommended_command r0 = None"
  shows "(project_type r = None \<and> recommended_command r = None \<and>
          (case working_dir r of
             None \<Rightarrow> True
           | Some w \<Rightarrow> w = [] \<or> lookup_dir t w = Inr None)) \<or>
         (\<exists>w d pt. working_dir r = Some w \<and> w \<noteq> [] \<and> lookup_dir t w = Inr (Some d) \<and>
            detect_project_type d = Inr pt \<and> project_type r = Some pt \<and>
            recommended_command r =
              (if truthy (build_command pt) then build_command pt else current_command r))"
  using assms
  by (auto simp: attach_project_def split: option.splits if_splits sum.splits)

lemma analyze_content_cases:
  assumes "analyze_content t p c = Inr r"
  shows "(project_type r = None \<and> recommended_command r = None \<and>
          (case working_dir r of
             None \<Rightarrow> True
           | Some w \<Rightarrow> w = [] \<or> lookup_dir t w = Inr None)) \<or>
         (\<exists>w d pt. working_dir r = Some w \<and> w \<noteq> [] \<and> lookup_dir t w = Inr (Some d) \<and>
            detect_project_type d = Inr pt \<and> project_type r = Some pt \<and>
            recommended_command r =
              (if truthy (build_command pt) then build_command pt else current_command r))"
  using assms
  by (intro attach_project_cases[of t "parse_script p c"])
     (simp_all add: analyze_content_def parse_script_fields)

lemma analyze_deploy_script_Inr:
  "analyze_deploy_script t name = Inr r \<longleftrightarrow>
     (\<exists>c. read_script t name = Some c \<and> analyze_content t name c = Inr r)"
  by (auto simp: analyze_deploy_script_def split: option.splits)

lemma cd_match_here_nonempty: "cd_match_here s = Some g \<Longrightarrow> g \<noteq> []"
  by (induction s rule: cd_match_here.induct)
     (auto simp: Let_def split: if_splits list.splits)

lemma re_search_cd_nonempty: "re_search_cd s = Some g \<Longrightarrow> g \<noteq> []"
proof (induction s)
  case Nil
  then show ?case by simp
next
  case (Cons c cs)
  then show ?case
    by (cases "cd_match_here (c # cs)") (auto dest: cd_match_here_nonempty)
qed

lemma find_working_dir_nonempty:
  "find_working_dir wd ls = Some w \<Longrightarrow> wd = Some w \<or> w \<noteq> []"
proof (induction ls arbitrary: wd)
  case Nil
  then show ?case by simp
next
  case (Cons l ls)
  show ?case
  proof (cases "re_search_cd l")
    case None
    with Cons show ?thesis by simp
  next
    case (Some g)
    with Cons.prems have "find_working_dir (Some g) ls = Some w" by simp
    from Cons.IH[OF this] re_search_cd_nonempty[OF Some] show ?thesis by auto
  qed
qed

lemma parsed_working_dir_nonempty:
  "working_dir (parse_script p c) = Some w \<Longrightarrow> w \<noteq> []"
  using find_working_dir_nonempty[of None "script_lines c" w]
  by (simp add: parse_script_fields)

lemma working_dir_nonempty:
  "analyze_content t p c = Inr r \<Longrightarrow> working_dir r = Some w \<Longrightarrow> w \<noteq> []"
  using find_working_dir_nonempty[of None "script_lines c" w]
  by (simp add: analyze_content_fields)

section \<open>Facts about detection\<close>

lemma detect_range:
  "detect_project_type d = Inr pt \<Longrightarrow>
     pt \<in> {vite_project, cra_project, vue_cli_project, frontend_project, unknown_project}"
  by (auto simp: detect_project_type_def classify_def
      split: manifest.splits sum.splits option.splits if_splits)

lemma static_build_command:
  assumes "detect_project_type d = Inr pt" and "category pt = ascii ''static''"
  shows "build_command pt = Some (ascii ''npm run build'')"
proof -
  have "category unknown_project \<noteq> ascii ''static''"
    by (simp add: unknown_project_def ascii_def)
  with assms detect_range[OF assms(1)] show ?thesis
    by (auto simp: vite_project_def cra_project_def vue_cli_project_def frontend_project_def)
qed

lemma npm_run_build_nonempty: "ascii ''npm run build'' \<noteq> []"
  by (simp add: ascii_def)





section \<open>The sample run\<close>

lemma demo_web_content:
  "analyze_content demo_target (ascii ''deploy_server_web.sh'')
     (ascii ''#!/bin/bash'' @ [0x0A] @ ascii ''cd web'' @ [0x0A] @ ascii ''npm run dev'' @ [0x0A])
   = Inr demo_web"
  by (simp add: analyze_content_def attach_project_def parse_script_def script_lines_def str_defs
      last_command_def demo_target_def demo_web_def demo_vite_dir_def detect_project_type_def
      classify_def vite_project_def get_or_empty_def Let_def)

lemma demo_api_content:
  "analyze_content demo_target (ascii ''deploy_server_api.sh'')
     (ascii ''cd api'' @ [0x0A] @ ascii ''npm start'') = Inr demo_api"
  by (simp add: analyze_content_def attach_project_def parse_script_def script_lines_def str_defs
      last_command_def demo_target_def demo_api_def demo_broken_dir_def detect_project_type_def
      unknown_project_def Let_def)

lemma demo_old_content:
  "analyze_content demo_target (ascii ''deploy_server_old.sh'')
     (ascii ''cd gone'' @ [0x0A] @ ascii ''make'') = Inr demo_old"
  by (simp add: analyze_content_def attach_project_def parse_script_def script_lines_def str_defs
      last_command_def demo_target_def demo_old_def Let_def)

lemma demo_scripts:
  "analyze_deploy_script demo_target (ascii ''deploy_server_api.sh'') = Inr demo_api"
  "analyze_deploy_script demo_target (ascii ''deploy_server_old.sh'') = Inr demo_old"
  "analyze_deploy_script demo_target (ascii ''deploy_server_web.sh'') = Inr demo_web"
  using demo_web_content demo_api_content demo_old_content
  by (simp_all add: analyze_deploy_script_def demo_target_def demo_files_def ascii_def)

lemma demo_sorted:
  "sorted_scripts demo_target =
     [ascii ''deploy_server_api.sh'', ascii ''deploy_server_old.sh'', ascii ''deploy_server_web.sh'']"
  by (simp add: sorted_scripts_def demo_target_def demo_files_def ascii_def)

lemma demo_run:
  "analyze_loop demo_target [] (sorted_scripts demo_target) = Inr [demo_api, demo_old, demo_web]"
  by (simp add: demo_sorted demo_scripts)

lemma demo_entries:
  "deploy_commands_json [demo_api, demo_old, demo_web] =
     [\<lparr>dir = ascii ''web'', command = ascii ''npm run build'', etype = ascii ''frontend''\<rparr>]"
  by (simp add: deploy_commands_json_def entry_of_def demo_api_def demo_old_def demo_web_def
      unknown_project_def vite_project_def ascii_def)

lemma demo_facts:
  "given demo_target" "target_exists demo_target = Inr True" "glob_scripts demo_target \<noteq> []"
  "stdout_ok demo_target" "can_write demo_target p" "resolved demo_target = ascii ''/srv/site''"
  by (simp_all add: demo_target_def demo_files_def)

section \<open>The recommended command\<close>

text \<open>
  Claim C2. Every result that \<^verbatim>\<open>analyze_deploy_script\<close> returns with a recommended
  command has a project type, and the recommended command is the build command of that
  project type when the build command is known (neither \<^verbatim>\<open>None\<close> nor empty), and the
  current command otherwise.
\<close>

theorem recommended_command_invariant:
  assumes "analyze_deploy_script t name = Inr r"
    and "recommended_command r = Some c"
  shows "\<exists>pt. project_type r = Some pt \<and>
           (if truthy (build_command pt) then build_command pt = Some c
            else current_command r = Some c)"
proof -
  from assms(1) obtain content where "analyze_content t name content = Inr r"
    by (auto simp: analyze_deploy_script_Inr)
  from analyze_content_cases[OF this] assms(2) show ?thesis
    by (auto split: if_splits)
qed

text \<open>
  The sample script of the Vite project: its recommended command is the build command.
\<close>

theorem recommended_command_invariant_witness:
  "analyze_deploy_script demo_target (ascii ''deploy_server_web.sh'') = Inr demo_web \<and>
   recommended_command demo_web = Some (ascii ''npm run build'') \<and>
   (\<exists>pt. project_type demo_web = Some pt \<and>
      (if truthy (build_command pt) then build_command pt = Some (ascii ''npm run build'')
       else current_command demo_web = Some (ascii ''npm run build'')))"
proof -
  have h1: "analyze_deploy_script demo_target (ascii ''deploy_server_web.sh'') = Inr demo_web"
    by (rule demo_scripts)
  have h2: "recommended_command demo_web = Some (ascii ''npm run build'')"
    by (simp add: demo_web_def)
  from recommended_command_invariant[OF h1 h2] h1 h2 show ?thesis by blast
qed

section \<open>Detection of the project type\<close>




section \<open>Manifests that cannot be read\<close>

text \<open>
  Claim C5, as stated, fails. The claim is about every project directory whose manifest
  is absent, unreadable or not valid JSON, and says that the detector returns the unknown
  type without raising. The manifest of a directory that may not be searched is
  unreadable; there \<^verbatim>\<open>package_json.exists()\<close> of line 21, which stands before the
  \<^verbatim>\<open>try\<close>, raises \<^verbatim>\<open>PermissionError\<close>, the detector raises, and so does the analysis of
  the script that changes into the directory.
\<close>

theorem locked_manifest_raises:
  "package_json locked_dir = Inaccessible \<and>
   detect_project_type locked_dir = Inl OSError \<and>
   read_script locked_target (ascii ''deploy_server_app.sh'') =
     Some (ascii ''cd app'' @ [0x0A] @ ascii ''npm run dev'') \<and>
   lookup_dir locked_target (ascii ''app'') = Inr (Some locked_dir) \<and>
   analyze_deploy_script locked_target (ascii ''deploy_server_app.sh'') = Inl OSError"
  by (simp add: locked_dir_def locked_target_def detect_project_type_def analyze_deploy_script_def
      analyze_content_def attach_project_def parse_script_def script_lines_def str_defs
      last_command_def Let_def)

text \<open>
  Claim C5, amended. When the manifest of a project directory is absent (\<^verbatim>\<open>exists()\<close>
  answers false), or exists and cannot be opened or read, or is not valid JSON,
  \<^verbatim>\<open>detect_project_type\<close> returns the unknown project type (category \<^verbatim>\<open>unknown\<close>, no build
  command) and raises nothing; the analysis of a readable script whose working directory
  is that project returns, with the unknown project type and with the current command as
  its recommended command.
\<close>

theorem broken_manifest_falls_back:
  assumes "package_json d = Absent \<or> package_json d = Unreadable \<or> package_json d = Malformed"
    and "read_script t name = Some content"
    and "working_dir (parse_script name content) = Some wd"
    and "lookup_dir t wd = Inr (Some d)"
  shows "detect_project_type d = Inr unknown_project \<and>
         category unknown_project = ascii ''unknown'' \<and>
         build_command unknown_project = None \<and>
         analyze_deploy_script t name =
           Inr ((parse_script name content)
                  \<lparr>project_type := Some unknown_project,
                   recommended_command := current_command (parse_script name content)\<rparr>)"
proof -
  from assms(1) have u: "detect_project_type d = Inr unknown_project"
    by (auto simp: detect_project_type_def)
  have b: "build_command unknown_project = None" "category unknown_project = ascii ''unknown''"
    by (simp_all add: unknown_project_def)
  from assms(3) have ne: "wd \<noteq> []"
    by (rule parsed_working_dir_nonempty)
  from u b ne assms(2,3,4) show ?thesis
    by (simp add: analyze_deploy_script_def analyze_content_def attach_project_def)
qed

text \<open>The sample script whose project has a manifest that is not JSON.\<close>

theorem broken_manifest_falls_back_witness:
  "package_json demo_broken_dir = Malformed \<and>
   read_script demo_target (ascii ''deploy_server_api.sh'') =
     Some (ascii ''cd api'' @ [0x0A] @ ascii ''npm start'') \<and>
   working_dir (parse_script (ascii ''deploy_server_api.sh'')
     (ascii ''cd api'' @ [0x0A] @ ascii ''npm start'')) = Some (ascii ''api'') \<and>
   lookup_dir demo_target (ascii ''api'') = Inr (Some demo_broken_dir) \<and>
   detect_project_type demo_broken_dir = Inr unknown_project \<and>
   analyze_deploy_script demo_target (ascii ''deploy_server_api.sh'') = Inr demo_api \<and>
   project_type demo_api = Some unknown_project \<and>
   recommended_command demo_api = current_command demo_api \<and>
   current_command demo_api = Some (ascii ''npm start'')"
proof -
  let ?c = "ascii ''cd api'' @ [0x0A] @ ascii ''npm start''"
  have h0: "package_json demo_broken_dir = Malformed"
    by (simp add: demo_broken_dir_def)
  then have h1: "package_json demo_broken_dir = Absent \<or> package_json demo_broken_dir = Unreadable \<or>
      package_json demo_broken_dir = Malformed"
    by simp
  have h2: "read_script demo_target (ascii ''deploy_server_api.sh'') = Some ?c"
    by (simp add: demo_target_def demo_files_def ascii_def)
  have h3: "working_dir (parse_script (ascii ''deploy_server_api.sh'') ?c) = Some (ascii ''api'')"
    by (simp add: parse_script_fields script_lines_def str_defs)
  have h4: "lookup_dir demo_target (ascii ''api'') = Inr (Some demo_broken_dir)"
    by (simp add: demo_target_def ascii_def)
  have h5: "project_type demo_api = Some unknown_project"
    "recommended_command demo_api = current_command demo_api"
    "current_command demo_api = Some (ascii ''npm start'')"
    by (simp_all add: demo_api_def)
  from broken_manifest_falls_back[OF h1 h2 h3 h4] h0 h2 h3 h4 h5 demo_scripts(1)
  show ?thesis by simp
qed

section \<open>The JSON output\<close>

text \<open>
  Claim C8, as stated, fails. The claim says that no exception leaves
  \<^verbatim>\<open>output_json_only\<close> when the target directory does not exist. For the target
  \<^verbatim>\<open>/tmp/aaa...a\<close> with 300 letters, which does not exist, \<^verbatim>\<open>script_dir.exists()\<close> of line
  257 raises \<^verbatim>\<open>OSError\<close>; nothing catches it, and no error object is printed.
\<close>

theorem json_raises_for_long_name:
  "target_exists long_name_target = Inl OSError \<and>
   glob_scripts long_name_target = [] \<and>
   stdout_ok long_name_target \<and>
   output_json_only long_name_target = Inl OSError"
  by (simp add: long_name_target_def output_json_only_def)

text \<open>
  Claim C8, amended. When \<^verbatim>\<open>script_dir.exists()\<close> answers that the target directory does
  not exist, or answers that it exists and no deploy script is found in it, and standard
  output takes the text, \<^verbatim>\<open>output_json_only\<close> prints the JSON object
  \<^verbatim>\<open>{"error": message}\<close> and returns normally: the result is \<open>Inr\<close>, an object and not
  the array of entries.
\<close>

theorem json_error_object:
  "(target_exists t = Inr False \<and> stdout_ok t \<longrightarrow>
      output_json_only t = Inr (JObj [(ascii ''error'', JStr (dir_missing_msg (resolved t)))])) \<and>
   (target_exists t = Inr True \<and> glob_scripts t = [] \<and> stdout_ok t \<longrightarrow>
      output_json_only t = Inr (JObj [(ascii ''error'', JStr (no_scripts_msg (resolved t)))]))"
  by (simp add: output_json_only_def error_json_def py_print_def)

text \<open>A target directory that does not exist, and one without deploy scripts.\<close>

theorem json_error_object_witness:
  "target_exists missing_target = Inr False \<and> stdout_ok missing_target \<and>
   output_json_only missing_target =
     Inr (JObj [(ascii ''error'', JStr (dir_missing_msg (ascii ''/srv/none'')))]) \<and>
   target_exists empty_target = Inr True \<and> glob_scripts empty_target = [] \<and>
   stdout_ok empty_target \<and>
   output_json_only empty_target =
     Inr (JObj [(ascii ''error'', JStr (no_scripts_msg (ascii ''/srv/empty'')))])"
  using json_error_object[of missing_target] json_error_object[of empty_target]
  by (simp add: missing_target_def empty_target_def)

section \<open>The loops over the results\<close>

lemma collect_entries_append:
  "collect_entries acc rs = acc @ collect_entries [] rs"
proof (induction rs arbitrary: acc)
  case Nil
  show ?case by simp
next
  case (Cons r rs)
  show ?case
  proof (cases "entry_of r")
    case None
    then show ?thesis using Cons.IH[of acc] by simp
  next
    case (Some e)
    then show ?thesis using Cons.IH[of "acc @ [e]"] Cons.IH[of "[e]"] by simp
  qed
qed

lemma deploy_commands_json_Cons:
  "deploy_commands_json (r # rs) =
     (case entry_of r of None \<Rightarrow> [] | Some e \<Rightarrow> [e]) @ deploy_commands_json rs"
proof (cases "entry_of r")
  case None
  then show ?thesis by (simp add: deploy_commands_json_def)
next
  case (Some e)
  then show ?thesis
    using collect_entries_append[of "[e]" rs] by (simp add: deploy_commands_json_def)
qed

lemma deploy_commands_json_Nil: "deploy_commands_json [] = []"
  by (simp add: deploy_commands_json_def)

lemma deploy_commands_json_append:
  "deploy_commands_json (rs @ rs') = deploy_commands_json rs @ deploy_commands_json rs'"
  by (induction rs) (simp_all add: deploy_commands_json_Nil deploy_commands_json_Cons)

lemma append_fragments_concat:
  "append_fragments ls rs = ls @ concat (map fragment_of rs)"
  by (induction rs arbitrary: ls) auto

lemma entry_of_etype: "entry_of r = Some e \<Longrightarrow> etype e = ascii ''frontend''"
  by (auto simp: entry_of_def Let_def split: option.splits if_splits)

lemma deploy_commands_json_etype:
  "e \<in> set (deploy_commands_json rs) \<Longrightarrow> etype e = ascii ''frontend''"
  by (induction rs)
     (auto simp: deploy_commands_json_Nil deploy_commands_json_Cons entry_of_etype
           split: option.splits)

lemma analyze_loop_acc:
  "analyze_loop t acc ps = Inr rs \<longleftrightarrow>
     (\<exists>rs'. analyze_loop t [] ps = Inr rs' \<and> rs = acc @ rs')"
proof (induction ps arbitrary: acc rs)
  case Nil
  show ?case by auto
next
  case (Cons p ps)
  show ?case
  proof (cases "analyze_deploy_script t p")
    case (Inl e)
    then show ?thesis by simp
  next
    case (Inr r)
    then show ?thesis
      using Cons.IH[of "acc @ [r]" rs] Cons.IH[of "[r]"] by auto
  qed
qed

lemma analyze_loop_Cons:
  "analyze_loop t [] (p # ps) = Inr rs \<longleftrightarrow>
     (\<exists>r rs'. analyze_deploy_script t p = Inr r \<and> analyze_loop t [] ps = Inr rs' \<and> rs = r # rs')"
proof (cases "analyze_deploy_script t p")
  case (Inl e)
  then show ?thesis by simp
next
  case (Inr r)
  then show ?thesis
    using analyze_loop_acc[of t "[r]" ps rs] by auto
qed

lemma analyze_loop_results:
  "analyze_loop t [] ps = Inr rs \<Longrightarrow>
     length rs = length ps \<and>
     (\<forall>i<length ps. \<exists>c. analyze_content t (ps ! i) c = Inr (rs ! i))"
proof (induction ps arbitrary: rs)
  case Nil
  then show ?case by simp
next
  case (Cons p ps)
  from Cons.prems obtain r rs' where r: "analyze_deploy_script t p = Inr r"
    and rs': "analyze_loop t [] ps = Inr rs'" and rs: "rs = r # rs'"
    using analyze_loop_Cons[of t p ps rs] by blast
  from r obtain c where c: "analyze_content t p c = Inr r"
    by (auto simp: analyze_deploy_script_Inr)
  from Cons.IH[OF rs'] c show ?case
    unfolding rs by (auto simp: nth_Cons split: nat.splits)
qed

lemma analyze_loop_scripts:
  assumes "analyze_loop t [] ps = Inr rs"
  shows "map script rs = ps"
proof (rule nth_equalityI)
  from analyze_loop_results[OF assms] show "length (map script rs) = length ps" by simp
next
  fix i
  assume "i < length (map script rs)"
  with analyze_loop_results[OF assms] obtain c where "i < length ps"
    "analyze_content t (ps ! i) c = Inr (rs ! i)" by auto
  then show "map script rs ! i = ps ! i"
    using analyze_loop_results[OF assms] by (simp add: analyze_content_fields)
qed

lemma analyze_loop_produced:
  assumes "analyze_loop t [] ps = Inr rs" and "r \<in> set rs"
  shows "\<exists>p c. p \<in> set ps \<and> analyze_content t p c = Inr r"
proof -
  from assms(2) obtain i where "i < length rs" "r = rs ! i"
    by (auto simp: in_set_conv_nth)
  with analyze_loop_results[OF assms(1)] show ?thesis
    by (metis nth_mem)
qed

section \<open>The type of an entry\<close>

text \<open>
  Claim C10. Every entry that \<^verbatim>\<open>infer_deploy_commands\<close> returns (and writes), and every
  object of the array that \<^verbatim>\<open>output_json_only\<close> prints, has the type \<^verbatim>\<open>frontend\<close>,
  whatever project type was detected.
\<close>

theorem entry_type_is_frontend:
  "(infer_deploy_commands t = Inr (Some (results, entries)) \<longrightarrow>
      (\<forall>e\<in>set entries. etype e = ascii ''frontend'')) \<and>
   (output_json_only t = Inr (JArr js) \<longrightarrow>
      (\<forall>j\<in>set js. json_field j (ascii ''type'') = Some (JStr (ascii ''frontend''))))"
proof (intro conjI impI ballI)
  fix e
  assume "infer_deploy_commands t = Inr (Some (results, entries))" and "e \<in> set entries"
  then show "etype e = ascii ''frontend''"
    by (auto simp: infer_deploy_commands_def py_print_def deploy_commands_json_etype
             split: if_splits sum.splits)
next
  fix j
  assume out: "output_json_only t = Inr (JArr js)" and j: "j \<in> set js"
  then obtain results where "js = map entry_json (deploy_commands_json results)"
    by (auto simp: output_json_only_def error_json_def py_print_def split: if_splits sum.splits)
  with j obtain e where e: "e \<in> set (deploy_commands_json results)" "j = entry_json e"
    by auto
  have "json_field (entry_json e) (ascii ''type'') = Some (JStr (etype e))"
    by (simp add: entry_json_def ascii_def)
  with e show "json_field j (ascii ''type'') = Some (JStr (ascii ''frontend''))"
    by (simp add: deploy_commands_json_etype)
qed

lemma demo_json:
  "output_json_only demo_target =
     Inr (JArr [entry_json \<lparr>dir = ascii ''web'', command = ascii ''npm run build'',
                            etype = ascii ''frontend''\<rparr>])"
  by (simp add: output_json_only_def py_print_def demo_run demo_entries demo_facts)

lemma demo_infer:
  "infer_deploy_commands demo_target =
     Inr (Some ([demo_api, demo_old, demo_web],
       [\<lparr>dir = ascii ''web'', command = ascii ''npm run build'', etype = ascii ''frontend''\<rparr>]))"
  by (simp add: infer_deploy_commands_def py_print_def demo_run demo_entries demo_facts)

text \<open>The sample run: its one entry comes from a project of type \<^verbatim>\<open>vite\<close>.\<close>

theorem entry_type_is_frontend_witness:
  "infer_deploy_commands demo_target =
     Inr (Some ([demo_api, demo_old, demo_web],
       [\<lparr>dir = ascii ''web'', command = ascii ''npm run build'', etype = ascii ''frontend''\<rparr>])) \<and>
   ptype vite_project = ascii ''vite'' \<and> project_type demo_web = Some vite_project \<and>
   etype \<lparr>dir = ascii ''web'', command = ascii ''npm run build'', etype = ascii ''frontend''\<rparr>
     = ascii ''frontend'' \<and>
   output_json_only demo_target =
     Inr (JArr [entry_json \<lparr>dir = ascii ''web'', command = ascii ''npm run build'',
                            etype = ascii ''frontend''\<rparr>]) \<and>
   json_field (entry_json \<lparr>dir = ascii ''web'', command = ascii ''npm run build'',
                            etype = ascii ''frontend''\<rparr>) (ascii ''type'')
     = Some (JStr (ascii ''frontend''))"
  using entry_type_is_frontend[of demo_target "[demo_api, demo_old, demo_web]"
      "[\<lparr>dir = ascii ''web'', command = ascii ''npm run build'', etype = ascii ''frontend''\<rparr>]"
      "[entry_json \<lparr>dir = ascii ''web'', command = ascii ''npm run build'',
                            etype = ascii ''frontend''\<rparr>]"]
    demo_infer demo_json
  by (simp add: vite_project_def demo_web_def)

section \<open>Static results and their entries\<close>

lemma produced_static:
  assumes "analyze_content t p c = Inr r" and "is_static r"
  shows "\<exists>w pt. working_dir r = Some w \<and> w \<noteq> [] \<and> project_type r = Some pt \<and>
             category pt = ascii ''static'' \<and> (\<exists>d. detect_project_type d = Inr pt) \<and>
             recommended_command r = Some (ascii ''npm run build'')"
proof -
  from assms(2) obtain pt where pt: "project_type r = Some pt"
    and cat: "category pt = ascii ''static''"
    by (auto simp: is_static_def split: option.splits)
  with analyze_content_cases[OF assms(1)] obtain w d where w: "working_dir r = Some w" "w \<noteq> []"
    and d: "detect_project_type d = Inr pt"
    and rc: "recommended_command r =
      (if truthy (build_command pt) then build_command pt else current_command r)"
    by auto
  from static_build_command[OF d cat] rc have "recommended_command r = Some (ascii ''npm run build'')"
    by (simp add: npm_run_build_nonempty)
  with w pt cat d show ?thesis by blast
qed

lemma produced_recommended_project:
  assumes "analyze_content t p c = Inr r"
  shows "recommended_command r \<noteq> None \<longrightarrow> project_type r \<noteq> None"
  using analyze_content_cases[OF assms] by auto

lemma entry_of_produced:
  assumes r: "analyze_content t p c = Inr r"
  shows "(case entry_of r of None \<Rightarrow> [] | Some e \<Rightarrow> [entry_fields e]) =
         (if is_static r then [result_fields r] else [])"
proof (cases "is_static r")
  case True
  from produced_static[OF r True] obtain w pt where w: "working_dir r = Some w" "w \<noteq> []"
    "project_type r = Some pt" "category pt = ascii ''static''"
    "recommended_command r = Some (ascii ''npm run build'')"
    by auto
  with True show ?thesis
    by (simp add: entry_of_def Let_def entry_fields_def result_fields_def npm_run_build_nonempty)
next
  case False
  show ?thesis
  proof (cases "project_type r")
    case None
    with produced_recommended_project[OF r] have "recommended_command r = None"
      by auto
    with False show ?thesis
      by (simp add: entry_of_def split: option.split)
  next
    case (Some pt)
    with False have "category pt \<noteq> ascii ''static''"
      by (simp add: is_static_def)
    with Some False show ?thesis
      by (simp add: entry_of_def Let_def split: option.split)
  qed
qed

lemma entries_are_static_projection:
  assumes "\<forall>r\<in>set rs. \<exists>p c. analyze_content t p c = Inr r"
  shows "map entry_fields (deploy_commands_json rs) = map result_fields (filter is_static rs)"
  using assms
proof (induction rs)
  case Nil
  show ?case by (simp add: deploy_commands_json_Nil)
next
  case (Cons r rs)
  then obtain p c where r: "analyze_content t p c = Inr r" by auto
  from Cons have IH: "map entry_fields (deploy_commands_json rs) = map result_fields (filter is_static rs)"
    by simp
  from entry_of_produced[OF r] IH show ?case
    by (simp add: deploy_commands_json_Cons split: option.splits if_splits)
qed

text \<open>
  Claim C6. In a run that reaches the output, the array that \<^verbatim>\<open>output_json_only\<close>
  prints and that \<^verbatim>\<open>infer_deploy_commands\<close> returns and writes is the projection to
  \<^verbatim>\<open>dir\<close>, \<^verbatim>\<open>command\<close> and \<^verbatim>\<open>type\<close> of exactly the results whose project category is
  \<^verbatim>\<open>static\<close>, in the order of the results, which is the sorted order of the script files
  found.
\<close>

theorem deploy_entries_static_projection:
  assumes "target_exists t = Inr True"
    and "glob_scripts t \<noteq> []"
    and "analyze_loop t [] (sorted_scripts t) = Inr results"
  shows "(stdout_ok t \<longrightarrow>
            output_json_only t = Inr (JArr (map entry_json (deploy_commands_json results)))) \<and>
         (given t \<and> stdout_ok t \<and> can_write t (json_output_path (resolved t)) \<longrightarrow>
            infer_deploy_commands t = Inr (Some (results, deploy_commands_json results))) \<and>
         map entry_fields (deploy_commands_json results) =
           map result_fields (filter is_static results) \<and>
         map script results = sort (glob_scripts t)"
proof -
  have "\<forall>r\<in>set results. \<exists>p c. analyze_content t p c = Inr r"
    using analyze_loop_produced[OF assms(3)] by blast
  then have "map entry_fields (deploy_commands_json results) =
      map result_fields (filter is_static results)"
    by (rule entries_are_static_projection)
  moreover have "map script results = sort (glob_scripts t)"
    using analyze_loop_scripts[OF assms(3)] by (simp add: sorted_scripts_def)
  ultimately show ?thesis
    using assms by (simp add: output_json_only_def infer_deploy_commands_def py_print_def)
qed

text \<open>The sample run: of its three results only the Vite project is static.\<close>

theorem deploy_entries_static_projection_witness:
  "target_exists demo_target = Inr True \<and> glob_scripts demo_target \<noteq> [] \<and>
   analyze_loop demo_target [] (sorted_scripts demo_target) = Inr [demo_api, demo_old, demo_web] \<and>
   output_json_only demo_target =
     Inr (JArr (map entry_json (deploy_commands_json [demo_api, demo_old, demo_web]))) \<and>
   infer_deploy_commands demo_target =
     Inr (Some ([demo_api, demo_old, demo_web],
                deploy_commands_json [demo_api, demo_old, demo_web])) \<and>
   map entry_fields (deploy_commands_json [demo_api, demo_old, demo_web]) =
     map result_fields (filter is_static [demo_api, demo_old, demo_web]) \<and>
   filter is_static [demo_api, demo_old, demo_web] = [demo_web] \<and>
   map script [demo_api, demo_old, demo_web] = sort (glob_scripts demo_target)"
proof -
  have h3: "filter is_static [demo_api, demo_old, demo_web] = [demo_web]"
    by (simp add: is_static_def demo_api_def demo_old_def demo_web_def unknown_project_def
        vite_project_def ascii_def)
  from deploy_entries_static_projection[OF demo_facts(2) demo_facts(3) demo_run]
    demo_facts h3 demo_run
  show ?thesis by simp
qed

section \<open>Working directories that do not exist\<close>

text \<open>
  Claim C9. When the working directory of a script is set and the directory it resolves
  to does not exist, the result has no project type and no recommended command, and it
  adds nothing to the entries nor to the generated script, wherever it stands among the
  results.
\<close>

theorem missing_project_dir_contributes_nothing:
  assumes "analyze_deploy_script t name = Inr r"
    and "working_dir r = Some wd"
    and "lookup_dir t wd = Inr None"
  shows "project_type r = None \<and> recommended_command r = None \<and>
         entry_of r = None \<and> fragment_of r = [] \<and>
         deploy_commands_json (rs @ r # rs') = deploy_commands_json (rs @ rs') \<and>
         generated_lines p (rs @ r # rs') = generated_lines p (rs @ rs')"
proof -
  from assms(1) obtain content where r: "analyze_content t name content = Inr r"
    by (auto simp: analyze_deploy_script_Inr)
  from analyze_content_cases[OF r] assms(2,3)
  have pt: "project_type r = None" and rc: "recommended_command r = None"
    by auto
  from rc have e: "entry_of r = None"
    by (simp add: entry_of_def split: option.split)
  from rc have f: "fragment_of r = []"
    by (simp add: fragment_of_def split: option.split)
  from e have "deploy_commands_json (rs @ r # rs') = deploy_commands_json (rs @ rs')"
    by (simp add: deploy_commands_json_append deploy_commands_json_Cons)
  moreover from f have "generated_lines p (rs @ r # rs') = generated_lines p (rs @ rs')"
    by (simp add: generated_lines_def append_fragments_concat)
  ultimately show ?thesis using pt rc e f by simp
qed

text \<open>The sample script whose working directory \<^verbatim>\<open>gone\<close> does not exist.\<close>

theorem missing_project_dir_contributes_nothing_witness:
  "analyze_deploy_script demo_target (ascii ''deploy_server_old.sh'') = Inr demo_old \<and>
   working_dir demo_old = Some (ascii ''gone'') \<and>
   lookup_dir demo_target (ascii ''gone'') = Inr None \<and>
   project_type demo_old = None \<and> recommended_command demo_old = None \<and>
   entry_of demo_old = None \<and> fragment_of demo_old = [] \<and>
   deploy_commands_json ([demo_api] @ demo_old # [demo_web]) =
     deploy_commands_json ([demo_api] @ [demo_web]) \<and>
   generated_lines (ascii ''/srv/site'') ([demo_api] @ demo_old # [demo_web]) =
     generated_lines (ascii ''/srv/site'') ([demo_api] @ [demo_web])"
proof -
  have h1: "analyze_deploy_script demo_target (ascii ''deploy_server_old.sh'') = Inr demo_old"
    by (rule demo_scripts)
  have h2: "working_dir demo_old = Some (ascii ''gone'')"
    by (simp add: demo_old_def)
  have h3: "lookup_dir demo_target (ascii ''gone'') = Inr None"
    by (simp add: demo_target_def ascii_def)
  from missing_project_dir_contributes_nothing[OF h1 h2 h3, of "[demo_api]" "[demo_web]" "ascii ''/srv/site''"]
    h1 h2 h3 show ?thesis by blast
qed

section \<open>The directories of the generated script\<close>








section \<open>The text of the generated script\<close>

































section \<open>Change-directory lines\<close>

text \<open>
  What the two loops of lines 97 to 107 compute: the working directory is the match of
  the last line on which the pattern matches, the commands are the lines that do not
  start with \<^verbatim>\<open>cd\<close> and a space, in their order, and the current command is the last
  of them.
\<close>

lemma find_working_dir_last:
  "find_working_dir wd ls =
     (case filter (\<lambda>l. re_search_cd l \<noteq> None) ls of
        [] \<Rightarrow> wd
      | m # ms \<Rightarrow> re_search_cd (last (m # ms)))"
proof (induction ls arbitrary: wd)
  case Nil
  show ?case by simp
next
  case (Cons l ls)
  show ?case
  proof (cases "re_search_cd l")
    case None
    then show ?thesis by (simp add: Cons.IH)
  next
    case (Some g)
    then show ?thesis by (simp add: Cons.IH split: list.split)
  qed
qed

lemma cd_line_argument:
  assumes "isspace w"
    and "takeWhile (\<lambda>x. \<not> isspace x) (dropWhile isspace rest) \<noteq> []"
  shows "re_search_cd (0x63 # 0x64 # w # rest) =
           Some (takeWhile (\<lambda>x. \<not> isspace x) (dropWhile isspace rest))"
  using assms by (simp add: Let_def)

lemma script_lines_nonempty: "l \<in> set (script_lines c) \<Longrightarrow> l \<noteq> []"
  by (auto simp: script_lines_def)

lemma collect_commands_filter:
  "collect_commands cmds ls = cmds @ filter (\<lambda>l. \<not> startswith l (ascii ''cd '') \<and> l \<noteq> []) ls"
  by (induction ls arbitrary: cmds) auto

lemma commands_filter:
  "commands (parse_script p c) =
     filter (\<lambda>l. \<not> startswith l (ascii ''cd '')) (script_lines c)"
proof -
  have "filter (\<lambda>l. \<not> startswith l (ascii ''cd '') \<and> l \<noteq> []) (script_lines c) =
        filter (\<lambda>l. \<not> startswith l (ascii ''cd '')) (script_lines c)"
    by (rule filter_cong) (auto dest: script_lines_nonempty)
  then show ?thesis
    by (simp add: parse_script_fields collect_commands_filter)
qed

lemma current_command_last:
  "current_command (parse_script p c) =
     (if commands (parse_script p c) = [] then None
      else Some (last (commands (parse_script p c))))"
  by (simp add: parse_script_fields last_command_def)

lemma lone_script_run:
  "analyze_deploy_script (lone_script_target c) (ascii ''deploy_server_app.sh'') =
     (case working_dir (parse_script (ascii ''deploy_server_app.sh'') c) of
        None \<Rightarrow> Inr (parse_script (ascii ''deploy_server_app.sh'') c)
      | Some w \<Rightarrow> Inr (parse_script (ascii ''deploy_server_app.sh'') c))"
  by (simp add: analyze_deploy_script_def analyze_content_def attach_project_def
      lone_script_target_def split: option.split)

text \<open>
  Claim C1 says that a line which does not start with \<^verbatim>\<open>cd\<close> never sets the working
  directory. The script of the single line \<^verbatim>\<open>echo abcd x\<close> has no change-directory
  line, and the loop of lines 103 to 107 keeps the line as a command; yet
  \<^verbatim>\<open>re.search\<close> finds \<^verbatim>\<open>cd x\<close> inside the word \<^verbatim>\<open>abcd\<close> and the working directory
  becomes \<^verbatim>\<open>x\<close>: in the result of lines 83 to 111 for every name of the script, in
  every result that \<^verbatim>\<open>analyze_deploy_script\<close> returns for this content, and in the one it
  returns in a directory that holds this script alone.
\<close>

theorem working_dir_from_line_without_cd:
  "script_lines (ascii ''echo abcd x'') = [ascii ''echo abcd x''] \<and>
   \<not> startswith (ascii ''echo abcd x'') (ascii ''cd'') \<and>
   working_dir (parse_script name (ascii ''echo abcd x'')) = Some (ascii ''x'') \<and>
   commands (parse_script name (ascii ''echo abcd x'')) = [ascii ''echo abcd x''] \<and>
   (case analyze_content t name (ascii ''echo abcd x'') of
      Inl e \<Rightarrow> True
    | Inr r \<Rightarrow> working_dir r = Some (ascii ''x'') \<and> commands r = [ascii ''echo abcd x'']) \<and>
   analyze_deploy_script (lone_script_target (ascii ''echo abcd x''))
       (ascii ''deploy_server_app.sh'') =
     Inr \<lparr>script = ascii ''deploy_server_app.sh'', working_dir = Some (ascii ''x''),
          commands = [ascii ''echo abcd x''], current_command = Some (ascii ''echo abcd x''),
          project_type = None, recommended_command = None\<rparr>"
proof -
  have l: "script_lines (ascii ''echo abcd x'') = [ascii ''echo abcd x'']"
    by (simp add: script_lines_def str_defs)
  have s: "\<not> startswith (ascii ''echo abcd x'') (ascii ''cd'')"
    by (simp add: str_defs)
  have w: "find_working_dir None [ascii ''echo abcd x''] = Some (ascii ''x'')"
    by (simp add: str_defs)
  have c: "collect_commands [] [ascii ''echo abcd x''] = [ascii ''echo abcd x'']"
    by (simp add: str_defs)
  have p: "parse_script name (ascii ''echo abcd x'') =
      \<lparr>script = name, working_dir = Some (ascii ''x''),
       commands = [ascii ''echo abcd x''], current_command = Some (ascii ''echo abcd x''),
       project_type = None, recommended_command = None\<rparr>" for name
    unfolding parse_script_def Let_def l w c by (simp add: last_command_def)
  have a: "(case analyze_content t name (ascii ''echo abcd x'') of
      Inl e \<Rightarrow> True
    | Inr r \<Rightarrow> working_dir r = Some (ascii ''x'') \<and> commands r = [ascii ''echo abcd x''])"
  proof (cases "analyze_content t name (ascii ''echo abcd x'')")
    case (Inl e)
    then show ?thesis by simp
  next
    case (Inr r)
    from analyze_content_fields(2,3)[OF Inr] show ?thesis
      unfolding Inr l w c by simp
  qed
  have r: "analyze_deploy_script (lone_script_target (ascii ''echo abcd x''))
       (ascii ''deploy_server_app.sh'') =
     Inr \<lparr>script = ascii ''deploy_server_app.sh'', working_dir = Some (ascii ''x''),
          commands = [ascii ''echo abcd x''], current_command = Some (ascii ''echo abcd x''),
          project_type = None, recommended_command = None\<rparr>"
    unfolding lone_script_run p by simp
  from l s p a r show ?thesis by simp
qed

text \<open>
  Claim C3 says that no change-directory line is among the commands. In the script
  \<^verbatim>\<open>cd<TAB>app\<close>, \<^verbatim>\<open>npm run dev\<close> the first line is a change-directory line for the
  pattern of line 96 (\<^verbatim>\<open>\s+\<close> takes the tab), and the working directory \<^verbatim>\<open>app\<close> is
  read from it; the test \<^verbatim>\<open>line.startswith('cd ')\<close> of line 104 asks for a space, so the
  line stays among the commands: in the result of lines 83 to 111 for every name of the
  script, in every result that \<^verbatim>\<open>analyze_deploy_script\<close> returns for this content, and in
  the one it returns in a directory that holds this script alone.
\<close>

theorem tab_cd_line_kept_in_commands:
  "script_lines (ascii ''cd'' @ [0x09] @ ascii ''app'' @ [0x0A] @ ascii ''npm run dev'') =
     [ascii ''cd'' @ [0x09] @ ascii ''app'', ascii ''npm run dev''] \<and>
   working_dir (parse_script name
      (ascii ''cd'' @ [0x09] @ ascii ''app'' @ [0x0A] @ ascii ''npm run dev'')) = Some (ascii ''app'') \<and>
   commands (parse_script name
      (ascii ''cd'' @ [0x09] @ ascii ''app'' @ [0x0A] @ ascii ''npm run dev'')) =
     [ascii ''cd'' @ [0x09] @ ascii ''app'', ascii ''npm run dev''] \<and>
   (case analyze_content t name
        (ascii ''cd'' @ [0x09] @ ascii ''app'' @ [0x0A] @ ascii ''npm run dev'') of
      Inl e \<Rightarrow> True
    | Inr r \<Rightarrow> working_dir r = Some (ascii ''app'') \<and>
        commands r = [ascii ''cd'' @ [0x09] @ ascii ''app'', ascii ''npm run dev'']) \<and>
   analyze_deploy_script
       (lone_script_target (ascii ''cd'' @ [0x09] @ ascii ''app'' @ [0x0A] @ ascii ''npm run dev''))
       (ascii ''deploy_server_app.sh'') =
     Inr \<lparr>script = ascii ''deploy_server_app.sh'', working_dir = Some (ascii ''app''),
          commands = [ascii ''cd'' @ [0x09] @ ascii ''app'', ascii ''npm run dev''],
          current_command = Some (ascii ''npm run dev''),
          project_type = None, recommended_command = None\<rparr>"
proof -
  have l: "script_lines (ascii ''cd'' @ [0x09] @ ascii ''app'' @ [0x0A] @ ascii ''npm run dev'') =
     [ascii ''cd'' @ [0x09] @ ascii ''app'', ascii ''npm run dev'']"
    by (simp add: script_lines_def str_defs)
  have w: "find_working_dir None [ascii ''cd'' @ [0x09] @ ascii ''app'', ascii ''npm run dev''] =
      Some (ascii ''app'')"
    by (simp add: str_defs)
  have c: "collect_commands [] [ascii ''cd'' @ [0x09] @ ascii ''app'', ascii ''npm run dev''] =
      [ascii ''cd'' @ [0x09] @ ascii ''app'', ascii ''npm run dev'']"
    by (simp add: str_defs)
  have p: "parse_script name
        (ascii ''cd'' @ [0x09] @ ascii ''app'' @ [0x0A] @ ascii ''npm run dev'') =
      \<lparr>script = name, working_dir = Some (ascii ''app''),
       commands = [ascii ''cd'' @ [0x09] @ ascii ''app'', ascii ''npm run dev''],
       current_command = Some (ascii ''npm run dev''),
       project_type = None, recommended_command = None\<rparr>" for name
    unfolding parse_script_def Let_def l w c by (simp add: last_command_def)
  have a: "(case analyze_content t name
        (ascii ''cd'' @ [0x09] @ ascii ''app'' @ [0x0A] @ ascii ''npm run dev'') of
      Inl e \<Rightarrow> True
    | Inr r \<Rightarrow> working_dir r = Some (ascii ''app'') \<and>
        commands r = [ascii ''cd'' @ [0x09] @ ascii ''app'', ascii ''npm run dev''])"
  proof (cases "analyze_content t name
        (ascii ''cd'' @ [0x09] @ ascii ''app'' @ [0x0A] @ ascii ''npm run dev'')")
    case (Inl e)
    then show ?thesis by simp
  next
    case (Inr r)
    from analyze_content_fields(2,3)[OF Inr] show ?thesis
      unfolding Inr l w c by simp
  qed
  have r: "analyze_deploy_script
       (lone_script_target (ascii ''cd'' @ [0x09] @ ascii ''app'' @ [0x0A] @ ascii ''npm run dev''))
       (ascii ''deploy_server_app.sh'') =
     Inr \<lparr>script = ascii ''deploy_server_app.sh'', working_dir = Some (ascii ''app''),
          commands = [ascii ''cd'' @ [0x09] @ ascii ''app'', ascii ''npm run dev''],
          current_command = Some (ascii ''npm run dev''),
          project_type = None, recommended_command = None\<rparr>"
    unfolding lone_script_run p by simp
  from l p a r show ?thesis by simp
qed

end
